theory Spec2Isabelle
  imports Main "HOL-Library.Sublist"
begin

section \<open>Text primitives of the host language\<close>

text \<open>
  A Python \<open>str\<close> is modelled as a \<^typ>\<open>string\<close>, the UTF-8 encoding of the text: a
  character below 128 is an ASCII code point, and characters from 128 on occur only
  inside the encoding of a code point beyond ASCII. The built-in methods used by
  \<open>garden_advice.py\<close> are modelled on the ASCII range, where they act as follows;
  characters from 128 on are neither whitespace nor cased here, so the model agrees
  with Python on every text whose code points beyond ASCII are neither whitespace nor
  changed by \<open>str.lower\<close>.
\<close>

text \<open>
  \<open>str.isspace\<close> on one character: tab, line feed, vertical tab, form feed, carriage
  return, the four separators \<open>0x1C\<close> to \<open>0x1F\<close>, and the space.
\<close>

definition isspace :: "char \<Rightarrow> bool" where
  "isspace c = (let n = (of_char c :: nat) in (9 \<le> n \<and> n \<le> 13) \<or> (28 \<le> n \<and> n \<le> 32))"

text \<open>\<open>str.lower\<close> on one character: \<open>A\<close> to \<open>Z\<close> move to \<open>a\<close> to \<open>z\<close>.\<close>

definition lower_char :: "char \<Rightarrow> char" where
  "lower_char c = (let n = (of_char c :: nat) in
     if 65 \<le> n \<and> n \<le> 90 then char_of (n + 32) else c)"

definition str_lower :: "string \<Rightarrow> string" where
  "str_lower s = map lower_char s"

text \<open>\<open>str.strip()\<close> with no argument removes whitespace from both ends.\<close>

definition str_strip :: "string \<Rightarrow> string" where
  "str_strip s = rev (dropWhile isspace (rev (dropWhile isspace s)))"

text \<open>
  \<open>str.split()\<close> with no argument: skip whitespace, take the characters up to the next
  whitespace as one word, and go on behind it; no empty word is produced.
\<close>

function str_split :: "string \<Rightarrow> string list" where
  "str_split s =
     (let t = dropWhile isspace s in
      if t = [] then []
      else takeWhile (\<lambda>c. \<not> isspace c) t # str_split (dropWhile (\<lambda>c. \<not> isspace c) t))"
  by pat_completeness auto

termination
proof (relation "measure length")
  show "wf (measure length)" by simp
next
  fix s t :: string
  assume t: "t = dropWhile isspace s" and "t \<noteq> []"
  then obtain a r where ar: "dropWhile isspace s = a # r"
    by (cases "dropWhile isspace s") simp_all
  from hd_dropWhile [of isspace s] ar have "\<not> isspace a"
    by simp
  with ar t have "dropWhile (\<lambda>c. \<not> isspace c) t = dropWhile (\<lambda>c. \<not> isspace c) r"
    by simp
  moreover have "length (dropWhile (\<lambda>c. \<not> isspace c) r) \<le> length r"
    by (rule length_dropWhile_le)
  moreover have "length (a # r) \<le> length s"
    unfolding ar [symmetric] by (rule length_dropWhile_le)
  ultimately show "(dropWhile (\<lambda>c. \<not> isspace c) t, s) \<in> measure length"
    by simp
qed

text \<open>\<open>sep.join(xs)\<close>.\<close>

fun str_join :: "string \<Rightarrow> string list \<Rightarrow> string" where
  "str_join sep [] = []"
| "str_join sep [x] = x"
| "str_join sep (x # y # ys) = x @ sep @ str_join sep (y # ys)"

section \<open>The static tables\<close>

text \<open>
  A dictionary literal is a finite map, given by its items in the order of the source;
  \<open>d.get(k)\<close> is the application of the map.
\<close>

definition SEASON_ALIASES :: "string \<rightharpoonup> string" where
  "SEASON_ALIASES = map_of
     [(''spring'', ''spring''),
      (''summer'', ''summer''),
      (''autumn'', ''autumn''),
      (''fall'', ''autumn''),
      (''winter'', ''winter'')]"

definition PLANT_ALIASES :: "string \<rightharpoonup> string" where
  "PLANT_ALIASES = map_of
     [(''flower'', ''flower''),
      (''flowers'', ''flower''),
      (''vegetable'', ''vegetable''),
      (''veg'', ''vegetable''),
      (''vegetables'', ''vegetable'')]"

definition ADVICE :: "string \<rightharpoonup> (string \<rightharpoonup> string list)" where
  "ADVICE = map_of
     [(''spring'', map_of
        [(''flower'',
            [''Deadhead early blooms and add a balanced fertiliser.'',
             ''Divide overcrowded perennials.'']),
         (''vegetable'',
            [''Start cool-season crops and harden off seedlings.'',
             ''Prepare beds with compost.''])]),
      (''summer'', map_of
        [(''flower'',
            [''Water in the morning and mulch to retain moisture.'',
             ''Pinch leggy annuals to encourage new blooms.'']),
         (''vegetable'',
            [''Water consistently and watch for pests (aphids, beetles).'',
             ''Harvest frequently to keep plants productive.''])]),
      (''autumn'', map_of
        [(''flower'',
            [''Plant spring-flowering bulbs.'',
             ''Cut back spent annuals and tidy beds.'']),
         (''vegetable'',
            [''Sow/plant cool-season crops; protect from early frosts.'',
             ''Add leaf mulch to improve soil.''])]),
      (''winter'', map_of
        [(''flower'',
            [''Protect tender perennials with covers in frost-prone areas.'',
             ''Plan next year'' @ [CHR 0xE2, CHR 0x80, CHR 0x99] @ ''s colour scheme.'']),
         (''vegetable'',
            [''Clean and oil tools; plan crop rotation.'',
             ''Start seeds indoors where appropriate.''])])]"

definition RECOMMENDATIONS :: "string \<rightharpoonup> string list" where
  "RECOMMENDATIONS = map_of
     [(''spring'', [''Snapdragon'', ''Lettuce'', ''Radish'']),
      (''summer'', [''Zinnia'', ''Tomato'', ''Basil'']),
      (''autumn'', [''Crocus (bulbs)'', ''Kale'', ''Spinach'']),
      (''winter'', [''Hellebore (mild climates)'', ''Microgreens'', ''Garlic (in mild regions)''])]"

section \<open>The functions of \<open>garden_advice.py\<close>\<close>

definition normalize :: "string \<Rightarrow> string" where
  "normalize text = str_join '' '' (str_split (str_lower (str_strip text)))"

text \<open>The two messages that \<open>parse_inputs\<close> formats around the raw text.\<close>

definition season_error :: "string \<Rightarrow> string" where
  "season_error raw_season =
     ''Unknown season: '' @ [CHR 0x27] @ raw_season @ [CHR 0x27]
       @ ''. Try spring/summer/autumn(winter) or '' @ [CHR 0x27] @ ''fall'' @ [CHR 0x27] @ ''.''"

definition plant_error :: "string \<Rightarrow> string" where
  "plant_error raw_plant =
     ''Unknown plant type: '' @ [CHR 0x27] @ raw_plant @ [CHR 0x27]
       @ ''. Try '' @ [CHR 0x27] @ ''flower'' @ [CHR 0x27] @ '' or ''
       @ [CHR 0x27] @ ''vegetable'' @ [CHR 0x27] @ ''.''"

text \<open>
  \<open>parse_inputs\<close> appends to the list \<open>errors\<close> in its two blocks, first the one
  for the season, then the one for the plant; the model passes the list along.
\<close>

definition parse_inputs ::
  "string option \<Rightarrow> string option \<Rightarrow> string option \<times> string option \<times> string list" where
  "parse_inputs raw_season raw_plant =
     (let errors0 = [];
          (season_key, errors1) =
            (case raw_season of
               None \<Rightarrow> (None, errors0)
             | Some r \<Rightarrow>
                (let s = normalize r;
                     season_key = SEASON_ALIASES s
                 in if season_key = None then (season_key, errors0 @ [season_error r])
                    else (season_key, errors0)));
          (plant_key, errors2) =
            (case raw_plant of
               None \<Rightarrow> (None, errors1)
             | Some r \<Rightarrow>
                (let p = normalize r;
                     plant_key = PLANT_ALIASES p
                 in if plant_key = None then (plant_key, errors1 @ [plant_error r])
                    else (plant_key, errors1)))
      in (season_key, plant_key, errors2))"

definition get_advice :: "string \<Rightarrow> string \<Rightarrow> string" where
  "get_advice season_key plant_key =
     (let season_bucket = (case ADVICE season_key of None \<Rightarrow> Map.empty | Some b \<Rightarrow> b);
          plant_lines = (case season_bucket plant_key of None \<Rightarrow> [] | Some ls \<Rightarrow> ls);
          lines1 = (if plant_lines = [] then [''No specific tips for this combination yet.'']
                    else plant_lines);
          recs = (case RECOMMENDATIONS season_key of None \<Rightarrow> [] | Some rs \<Rightarrow> rs);
          lines2 = (if recs \<noteq> []
                    then lines1 @ ['''',
                           ''Suggested '' @ plant_key @ ''s for '' @ season_key @ '': ''
                             @ str_join '', '' recs]
                    else lines1)
      in str_join [CHR 0x0A] lines2)"

section \<open>The normalizer as the specification words it\<close>



text \<open>\<open>s.split(sep)\<close> for a separator of one character, used to read a text by lines.\<close>

fun str_split_on :: "char \<Rightarrow> string \<Rightarrow> string list" where
  "str_split_on sep [] = [[]]"
| "str_split_on sep (c # cs) =
     (if c = sep then [] # str_split_on sep cs
      else (case str_split_on sep cs of [] \<Rightarrow> [[c]] | w # ws \<Rightarrow> (c # w) # ws))"

section \<open>Characters, words and whitespace\<close>

declare str_split.simps [simp del]

lemma isspace_lower_char: "isspace (lower_char c) = isspace c"
  by (auto simp add: isspace_def lower_char_def Let_def)


lemma lower_char_space: "lower_char (CHR '' '') = CHR '' ''"
  by (simp add: lower_char_def)


lemma isspace_lower_comp: "isspace \<circ> lower_char = isspace"
  by (rule ext) (simp add: isspace_lower_char)

lemma nonspace_lower_comp: "(\<lambda>c. \<not> isspace c) \<circ> lower_char = (\<lambda>c. \<not> isspace c)"
  by (rule ext) (simp add: isspace_lower_char)

lemma str_strip_lower: "str_strip (str_lower s) = str_lower (str_strip s)"
  by (simp add: str_strip_def str_lower_def dropWhile_map rev_map isspace_lower_comp)

lemma str_split_none: "dropWhile isspace s = [] \<Longrightarrow> str_split s = []"
  by (simp add: str_split.simps [of s])

lemma str_split_some:
  "dropWhile isspace s = t \<Longrightarrow> t \<noteq> [] \<Longrightarrow>
     str_split s = takeWhile (\<lambda>c. \<not> isspace c) t # str_split (dropWhile (\<lambda>c. \<not> isspace c) t)"
  by (simp add: str_split.simps [of s])

lemma str_split_lower: "str_split (str_lower s) = map str_lower (str_split s)"
proof (induction s rule: str_split.induct)
  case (1 s)
  define t where "t = dropWhile isspace s"
  have dl: "dropWhile isspace (str_lower s) = str_lower t"
    by (simp add: str_lower_def t_def dropWhile_map isspace_lower_comp)
  show ?case
  proof (cases "t = []")
    case True
    then have "str_split s = []" "str_split (str_lower s) = []"
      using dl by (simp_all add: str_split_none t_def str_lower_def)
    then show ?thesis by simp
  next
    case False
    from 1 [OF t_def False]
    have IH: "str_split (str_lower (dropWhile (\<lambda>c. \<not> isspace c) t))
      = map str_lower (str_split (dropWhile (\<lambda>c. \<not> isspace c) t))" .
    have "str_lower t \<noteq> []"
      using False by (simp add: str_lower_def)
    from str_split_some [OF dl this]
    have "str_split (str_lower s) =
        str_lower (takeWhile (\<lambda>c. \<not> isspace c) t)
          # str_split (str_lower (dropWhile (\<lambda>c. \<not> isspace c) t))"
      by (simp add: str_lower_def takeWhile_map dropWhile_map nonspace_lower_comp)
    moreover from str_split_some [OF t_def [symmetric] False]
    have "str_split s = takeWhile (\<lambda>c. \<not> isspace c) t
       # str_split (dropWhile (\<lambda>c. \<not> isspace c) t)" .
    ultimately show ?thesis
      using IH by simp
  qed
qed

lemma takeWhile_word_spaces:
  "\<forall>c\<in>set ws. isspace c \<Longrightarrow>
     takeWhile (\<lambda>c. \<not> isspace c) (t @ ws) = takeWhile (\<lambda>c. \<not> isspace c) t"
  by (induction t) (cases ws; simp)+

lemma dropWhile_word_spaces:
  "\<forall>c\<in>set ws. isspace c \<Longrightarrow>
     dropWhile (\<lambda>c. \<not> isspace c) (t @ ws) = dropWhile (\<lambda>c. \<not> isspace c) t @ ws"
  by (induction t) (cases ws; simp)+

lemma str_split_append_spaces:
  "\<forall>c\<in>set ws. isspace c \<Longrightarrow> str_split (s @ ws) = str_split s"
proof (induction s rule: str_split.induct)
  case (1 s)
  define t where "t = dropWhile isspace s"
  from 1(2) have ws: "dropWhile isspace ws = []" by simp
  show ?case
  proof (cases "t = []")
    case True
    then have "dropWhile isspace (s @ ws) = []"
      using ws by (simp add: t_def dropWhile_append)
    with True show ?thesis
      by (simp add: str_split_none t_def)
  next
    case False
    then have d: "dropWhile isspace (s @ ws) = t @ ws"
      by (auto simp add: t_def dropWhile_append)
    from False have ne: "t @ ws \<noteq> []" by simp
    let ?r = "dropWhile (\<lambda>c. \<not> isspace c) t"
    have tw: "takeWhile (\<lambda>c. \<not> isspace c) (t @ ws) = takeWhile (\<lambda>c. \<not> isspace c) t"
      using 1(2) by (rule takeWhile_word_spaces)
    have dw: "dropWhile (\<lambda>c. \<not> isspace c) (t @ ws) = ?r @ ws"
      using 1(2) by (rule dropWhile_word_spaces)
    from 1(1) [OF t_def False 1(2)]
    have IH: "str_split (?r @ ws) = str_split ?r" .
    from str_split_some [OF d ne] str_split_some [OF t_def [symmetric] False] tw dw IH
    show ?thesis by simp
  qed
qed

lemma str_split_dropWhile: "str_split (dropWhile isspace s) = str_split s"
  by (simp add: str_split.simps [of s] str_split.simps [of "dropWhile isspace s"])

lemma str_split_strip: "str_split (str_strip s) = str_split s"
proof -
  let ?t = "dropWhile isspace s"
  have "?t = str_strip s @ rev (takeWhile isspace (rev ?t))"
    unfolding str_strip_def
    by (metis rev_append rev_rev_ident takeWhile_dropWhile_id)
  moreover have "\<forall>c\<in>set (rev (takeWhile isspace (rev ?t))). isspace c"
    by (auto dest: set_takeWhileD)
  ultimately have "str_split ?t = str_split (str_strip s)"
    using str_split_append_spaces by metis
  then show ?thesis
    by (simp add: str_split_dropWhile)
qed




lemma normalize_words: "normalize s = str_join '' '' (map str_lower (str_split s))"
  by (simp add: normalize_def str_strip_lower [symmetric] str_split_strip str_split_lower)





lemma normalize_Fall: "normalize ''Fall'' = ''fall''"
  by (simp add: normalize_words str_split.simps isspace_def str_lower_def lower_char_def
      char_of_eq_iff)

lemma normalize_FALL: "normalize ''FALL'' = ''fall''"
  by (simp add: normalize_words str_split.simps isspace_def str_lower_def lower_char_def
      char_of_eq_iff)

lemma normalize_fall_padded: "normalize '' fall '' = ''fall''"
  by (simp add: normalize_words str_split.simps isspace_def str_lower_def lower_char_def
      char_of_eq_iff)

lemma normalize_monsoon: "normalize ''monsoon'' = ''monsoon''"
  by (simp add: normalize_words str_split.simps isspace_def str_lower_def lower_char_def)

lemma normalize_tree: "normalize ''tree'' = ''tree''"
  by (simp add: normalize_words str_split.simps isspace_def str_lower_def lower_char_def)

lemma recommendations_nonempty: "RECOMMENDATIONS season_key = Some recs \<Longrightarrow> recs \<noteq> []"
  by (auto simp add: RECOMMENDATIONS_def split: if_splits)

section \<open>The advice renderer\<close>

text \<open>
  Claim C1. For every season key and plant key whose pair has no tip list in the Advice
  table, \<open>get_advice\<close> returns the fallback line
  \<open>No specific tips for this combination yet.\<close>, then an empty line, then the footer line
  that lists the plants recommended for the season; when the season key has no entry in
  the Recommendation table, the empty line and the footer are left out and the fallback
  line is the whole result.
\<close>

theorem get_advice_fallback:
  assumes "(case ADVICE season_key of None \<Rightarrow> None | Some bucket \<Rightarrow> bucket plant_key) = None"
  shows "get_advice season_key plant_key =
    (case RECOMMENDATIONS season_key of
       None \<Rightarrow> ''No specific tips for this combination yet.''
     | Some recs \<Rightarrow> str_join [CHR 0x0A]
         [''No specific tips for this combination yet.'',
          [],
          ''Suggested '' @ plant_key @ ''s for '' @ season_key @ '': '' @ str_join '', '' recs])"
proof -
  from assms
  have "(case (case ADVICE season_key of None \<Rightarrow> Map.empty | Some b \<Rightarrow> b) plant_key of
           None \<Rightarrow> [] | Some ls \<Rightarrow> ls) = []"
    by (simp split: option.splits)
  then show ?thesis
    by (auto simp add: get_advice_def Let_def dest: recommendations_nonempty split: option.split)
qed

theorem get_advice_fallback_witness:
  "(case ADVICE ''summer'' of None \<Rightarrow> None | Some bucket \<Rightarrow> bucket ''tree'') = None
   \<and> get_advice ''summer'' ''tree'' =
       ''No specific tips for this combination yet.'' @ [CHR 0x0A, CHR 0x0A]
         @ ''Suggested trees for summer: Zinnia, Tomato, Basil''
   \<and> (case ADVICE ''monsoon'' of None \<Rightarrow> None | Some bucket \<Rightarrow> bucket ''flower'') = None
   \<and> get_advice ''monsoon'' ''flower'' = ''No specific tips for this combination yet.''"
proof -
  have h1: "(case ADVICE ''summer'' of None \<Rightarrow> None | Some bucket \<Rightarrow> bucket ''tree'') = None"
    by (simp add: ADVICE_def)
  have h2: "(case ADVICE ''monsoon'' of None \<Rightarrow> None | Some bucket \<Rightarrow> bucket ''flower'') = None"
    by (simp add: ADVICE_def)
  from get_advice_fallback [OF h1] get_advice_fallback [OF h2] h1 h2 show ?thesis
    by (simp add: RECOMMENDATIONS_def)
qed

text \<open>
  Claim C2. \<open>get_advice("summer", "vegetable")\<close> returns a text that contains
  \<open>Water consistently\<close>, and the last of its lines (the text split at line feeds)
  contains \<open>Tomato\<close>.
\<close>

theorem get_advice_summer_vegetable:
  "sublist ''Water consistently'' (get_advice ''summer'' ''vegetable'')
   \<and> sublist ''Tomato'' (last (str_split_on (CHR 0x0A) (get_advice ''summer'' ''vegetable'')))"
  by (simp add: get_advice_def ADVICE_def RECOMMENDATIONS_def sublist_Cons_right)

text \<open>
  Claim C10. \<open>get_advice\<close> is defined on all pairs of strings: for every season key that
  is a key of neither the Advice table nor the Recommendation table, and every plant key,
  it returns the one line \<open>No specific tips for this combination yet.\<close> and no footer.
\<close>

theorem get_advice_unknown_season:
  assumes "ADVICE season_key = None" and "RECOMMENDATIONS season_key = None"
  shows "get_advice season_key plant_key = ''No specific tips for this combination yet.''"
  using assms by (simp add: get_advice_def)

theorem get_advice_unknown_season_witness:
  "ADVICE ''monsoon'' = None \<and> RECOMMENDATIONS ''monsoon'' = None
   \<and> get_advice ''monsoon'' ''vegetable'' = ''No specific tips for this combination yet.''"
proof -
  have a: "ADVICE ''monsoon'' = None"
    by (simp add: ADVICE_def)
  have r: "RECOMMENDATIONS ''monsoon'' = None"
    by (simp add: RECOMMENDATIONS_def)
  from get_advice_unknown_season [OF a r, of "''vegetable''"] a r show ?thesis
    by simp
qed

section \<open>The normalizer\<close>



section \<open>The input resolver\<close>

text \<open>
  Claim C5. Each of the raw season texts \<open>Fall\<close>, \<open>FALL\<close> and \<open>fall\<close> between two
  spaces resolves through \<open>parse_inputs\<close> to the season key \<open>autumn\<close>, without an error
  when no plant is given and whatever the plant argument is.
\<close>

theorem parse_inputs_fall:
  "parse_inputs (Some ''Fall'') None = (Some ''autumn'', None, [])
   \<and> parse_inputs (Some ''FALL'') None = (Some ''autumn'', None, [])
   \<and> parse_inputs (Some '' fall '') None = (Some ''autumn'', None, [])
   \<and> fst (parse_inputs (Some ''Fall'') raw_plant) = Some ''autumn''
   \<and> fst (parse_inputs (Some ''FALL'') raw_plant) = Some ''autumn''
   \<and> fst (parse_inputs (Some '' fall '') raw_plant) = Some ''autumn''"
  by (simp add: parse_inputs_def normalize_Fall normalize_FALL normalize_fall_padded
      SEASON_ALIASES_def split: option.split)

text \<open>
  Claim C6. For every raw season text whose normalization is not a key of the season
  alias table, \<open>parse_inputs\<close> returns no season key and exactly one error message for the
  season: it is the only message when no plant is given, and it stands in front of the
  messages of the plant field otherwise. The message contains the raw text as it was
  given.
\<close>

theorem parse_inputs_unknown_season:
  assumes "SEASON_ALIASES (normalize raw_season) = None"
  shows "parse_inputs (Some raw_season) None = (None, None, [season_error raw_season])
    \<and> fst (parse_inputs (Some raw_season) raw_plant) = None
    \<and> snd (snd (parse_inputs (Some raw_season) raw_plant))
        = season_error raw_season # snd (snd (parse_inputs None raw_plant))
    \<and> sublist raw_season (season_error raw_season)"
proof -
  have "sublist raw_season (season_error raw_season)"
    unfolding season_error_def by (metis sublist_appendI append.assoc)
  with assms show ?thesis
    by (simp add: parse_inputs_def Let_def split: option.split)
qed

theorem parse_inputs_unknown_season_witness:
  "SEASON_ALIASES (normalize ''monsoon'') = None
   \<and> parse_inputs (Some ''monsoon'') None = (None, None,
        [''Unknown season: '' @ [CHR 0x27] @ ''monsoon'' @ [CHR 0x27]
           @ ''. Try spring/summer/autumn(winter) or '' @ [CHR 0x27] @ ''fall''
           @ [CHR 0x27] @ ''.''])
   \<and> sublist ''monsoon'' (season_error ''monsoon'')"
proof -
  have h: "SEASON_ALIASES (normalize ''monsoon'') = None"
    by (simp add: normalize_monsoon SEASON_ALIASES_def)
  from parse_inputs_unknown_season [OF h, of None] h show ?thesis
    by (simp add: season_error_def)
qed

text \<open>
  Claim C7. When neither the raw season text nor the raw plant text resolves against its
  alias table, \<open>parse_inputs\<close> returns no key and exactly two error messages, the one of
  the season first and the one of the plant second: the failure of the season does not
  stop the check of the plant.
\<close>

theorem parse_inputs_both_unknown:
  assumes "SEASON_ALIASES (normalize raw_season) = None"
    and "PLANT_ALIASES (normalize raw_plant) = None"
  shows "parse_inputs (Some raw_season) (Some raw_plant)
    = (None, None, [season_error raw_season, plant_error raw_plant])"
  using assms by (simp add: parse_inputs_def)

theorem parse_inputs_both_unknown_witness:
  "SEASON_ALIASES (normalize ''monsoon'') = None \<and> PLANT_ALIASES (normalize ''tree'') = None
   \<and> parse_inputs (Some ''monsoon'') (Some ''tree'')
      = (None, None, [season_error ''monsoon'', plant_error ''tree''])"
proof -
  have s: "SEASON_ALIASES (normalize ''monsoon'') = None"
    by (simp add: normalize_monsoon SEASON_ALIASES_def)
  have p: "PLANT_ALIASES (normalize ''tree'') = None"
    by (simp add: normalize_tree PLANT_ALIASES_def)
  from parse_inputs_both_unknown [OF s p] s p show ?thesis
    by simp
qed

text \<open>
  Claim C8. A field that is absent is skipped: for a raw season or a raw plant that is
  \<open>None\<close>, \<open>parse_inputs\<close> returns no key and no error message for that field, so the
  result holds the key and the message of the other field only; with both absent the
  result is \<open>(None, None, [])\<close>.
\<close>

theorem parse_inputs_absent:
  "parse_inputs None None = (None, None, [])
   \<and> parse_inputs None (Some raw_plant)
       = (None, PLANT_ALIASES (normalize raw_plant),
          if PLANT_ALIASES (normalize raw_plant) = None then [plant_error raw_plant] else [])
   \<and> parse_inputs (Some raw_season) None
       = (SEASON_ALIASES (normalize raw_season), None,
          if SEASON_ALIASES (normalize raw_season) = None then [season_error raw_season]
          else [])"
  by (simp add: parse_inputs_def Let_def)

section \<open>The tables\<close>

text \<open>
  Claim C9. The season keys of the Advice table and those of the Recommendation table
  are exactly the values of the season alias table, and the plant keys of every season
  bucket of the Advice table are exactly the values of the plant alias table.
\<close>

theorem tables_keys:
  "dom ADVICE = ran SEASON_ALIASES \<and> dom RECOMMENDATIONS = ran SEASON_ALIASES
   \<and> (\<forall>bucket\<in>ran ADVICE. dom bucket = ran PLANT_ALIASES)"
proof -
  have s: "ran SEASON_ALIASES = {''spring'', ''summer'', ''autumn'', ''winter''}"
    unfolding SEASON_ALIASES_def by (subst ran_distinct) auto
  have p: "ran PLANT_ALIASES = {''flower'', ''vegetable''}"
    unfolding PLANT_ALIASES_def by (subst ran_distinct) auto
  have a: "dom ADVICE = {''spring'', ''summer'', ''autumn'', ''winter''}"
    unfolding ADVICE_def by (simp add: dom_map_of_conv_image_fst)
  have r: "dom RECOMMENDATIONS = {''spring'', ''summer'', ''autumn'', ''winter''}"
    unfolding RECOMMENDATIONS_def by (simp add: dom_map_of_conv_image_fst)
  have b: "\<forall>bucket\<in>ran ADVICE. dom bucket = {''flower'', ''vegetable''}"
    unfolding ADVICE_def by (subst ran_distinct) (auto simp add: dom_map_of_conv_image_fst)
  from s p a r b show ?thesis by simp
qed

theorem tables_keys_witness:
  "the (ADVICE ''summer'') \<in> ran ADVICE
   \<and> dom (the (ADVICE ''summer'')) = ran PLANT_ALIASES"
proof -
  have "ADVICE ''summer'' = Some (the (ADVICE ''summer''))"
    by (simp add: ADVICE_def)
  then have m: "the (ADVICE ''summer'') \<in> ran ADVICE"
    by (rule ranI)
  from tables_keys have "\<forall>bucket\<in>ran ADVICE. dom bucket = ran PLANT_ALIASES"
    by (elim conjE)
  then have "dom (the (ADVICE ''summer'')) = ran PLANT_ALIASES"
    using m by (rule bspec)
  with m show ?thesis
    by (rule conjI)
qed

end
